theory Spec2Isabelle
  imports Main "HOL-Library.Sublist"
begin

section \<open>Python values, strings and exceptions\<close>

text \<open>
  The module \<^verbatim>\<open>pipelinewise/fastsync/commons/tap_mysql.py\<close> is embedded function by
  function. Python values that flow through it are strings, integers, booleans and
  \<^verbatim>\<open>None\<close>; a result row of a \<^verbatim>\<open>DictCursor\<close> is a dictionary from column names to
  such values, kept as an association list read with \<open>map_of\<close>.
\<close>

datatype pyval = PyNone | PyBool bool | PyInt int | PyStr string

type_synonym row = "(string \<times> pyval) list"

text \<open>
  Exceptions are values. The first four are the classes of the database client that the
  module distinguishes: \<^verbatim>\<open>InterfaceError\<close> and \<^verbatim>\<open>OperationalError\<close> are caught by
  \<^verbatim>\<open>query\<close>, \<^verbatim>\<open>InternalError\<close> by \<^verbatim>\<open>run_session_sqls\<close>; \<open>OtherDbError\<close> stands for every
  other class the client raises (\<^verbatim>\<open>ProgrammingError\<close>, \<^verbatim>\<open>DataError\<close>, ...). The remaining
  ones are raised by the Python code itself.
\<close>

datatype pyerr =
    InterfaceError
  | OperationalError
  | InternalError
  | OtherDbError
  | KeyError string
  | IndexError
  | AttributeError
  | TypeError
  | ValueError
  | PyException string

text \<open>Characters that are written by their codes inside the texts of the module.\<close>

definition nl :: string where
  "nl = [CHR 0x0A]"

definition cr :: string where
  "cr = [CHR 0x0D]"

definition nul :: string where
  "nul = [CHR 0x00]"

definition sq :: string where
  "sq = [CHR 0x27]"

definition dq :: string where
  "dq = [CHR 0x22]"

subsection \<open>\<^verbatim>\<open>str.split\<close>, \<^verbatim>\<open>str.strip\<close>, \<^verbatim>\<open>str()\<close> and \<^verbatim>\<open>int()\<close>\<close>

text \<open>\<^verbatim>\<open>s.split(sep)\<close> for a one-character separator: never empty, empty fields kept.\<close>

fun py_split :: "char \<Rightarrow> string \<Rightarrow> string list" where
  "py_split sep [] = [[]]"
| "py_split sep (c # cs) =
     (if c = sep then [] # py_split sep cs
      else (case py_split sep cs of [] \<Rightarrow> [[c]] | w # ws \<Rightarrow> (c # w) # ws))"

text \<open>
  The characters \<^verbatim>\<open>str.strip()\<close> removes, among the code points below 256: the ASCII
  white space 9 to 13 and 28 to 32, and the code points 133 and 160.
\<close>

definition is_space :: "char \<Rightarrow> bool" where
  "is_space c =
     (let n = of_char c :: nat
      in (9 \<le> n \<and> n \<le> 13) \<or> (28 \<le> n \<and> n \<le> 32) \<or> n = 133 \<or> n = 160)"

definition py_strip :: "string \<Rightarrow> string" where
  "py_strip s = rev (dropWhile is_space (rev (dropWhile is_space s)))"

definition digit_char :: "nat \<Rightarrow> char" where
  "digit_char d = ''0123456789'' ! d"

fun str_nat :: "nat \<Rightarrow> string" where
  "str_nat n = (if n < 10 then [digit_char n] else str_nat (n div 10) @ [digit_char (n mod 10)])"

text \<open>
  The interpreter's limit on the conversion between integers and decimal text: more than
  4300 digits raise \<^verbatim>\<open>ValueError\<close>, in \<^verbatim>\<open>str()\<close> and in \<^verbatim>\<open>int()\<close>.
\<close>

definition MAX_STR_DIGITS :: nat where
  "MAX_STR_DIGITS = 4300"

definition str_int :: "int \<Rightarrow> pyerr + string" where
  "str_int i =
     (let ds = str_nat (nat \<bar>i\<bar>)
      in if length ds > MAX_STR_DIGITS then Inl ValueError
         else Inr (if i < 0 then CHR ''-'' # ds else ds))"

text \<open>\<^verbatim>\<open>str(v)\<close>, which is also what \<^verbatim>\<open>%s\<close> and a field of an f-string give.\<close>

fun py_str :: "pyval \<Rightarrow> pyerr + string" where
  "py_str PyNone = Inr ''None''"
| "py_str (PyBool b) = Inr (if b then ''True'' else ''False'')"
| "py_str (PyInt i) = str_int i"
| "py_str (PyStr s) = Inr s"

definition is_digit :: "char \<Rightarrow> bool" where
  "is_digit c = (let n = of_char c :: nat in 48 \<le> n \<and> n \<le> 57)"

definition digit_val :: "char \<Rightarrow> nat" where
  "digit_val c = of_char c - 48"

definition nat_of_digits :: "string \<Rightarrow> nat" where
  "nat_of_digits ds = foldl (\<lambda>acc c. 10 * acc + digit_val c) 0 ds"

text \<open>
  \<^verbatim>\<open>int(s)\<close> on a string, base 10: the padding around the number is stripped, one sign
  is allowed, then decimal digits in groups separated by single underscores, at most
  4300 digits. The padding of \<^verbatim>\<open>int()\<close> is narrower than the white space of
  \<^verbatim>\<open>str.strip()\<close>: the code points 28 to 31 are not part of it.
\<close>

definition is_int_padding :: "char \<Rightarrow> bool" where
  "is_int_padding c =
     (let n = of_char c :: nat
      in (9 \<le> n \<and> n \<le> 13) \<or> n = 32 \<or> n = 133 \<or> n = 160)"

definition int_strip :: "string \<Rightarrow> string" where
  "int_strip s = rev (dropWhile is_int_padding (rev (dropWhile is_int_padding s)))"

definition int_of_digit_groups :: "string \<Rightarrow> pyerr + nat" where
  "int_of_digit_groups body =
     (let groups = py_split (CHR ''_'') body
      in if list_all (\<lambda>g. g \<noteq> [] \<and> list_all is_digit g) groups
            \<and> length (concat groups) \<le> MAX_STR_DIGITS
         then Inr (nat_of_digits (concat groups))
         else Inl ValueError)"

definition int_of_string :: "string \<Rightarrow> pyerr + int" where
  "int_of_string s =
     (case int_strip s of
        [] \<Rightarrow> Inl ValueError
      | c # cs \<Rightarrow>
          if c = CHR ''-'' then
            (case int_of_digit_groups cs of Inl e \<Rightarrow> Inl e | Inr n \<Rightarrow> Inr (- int n))
          else if c = CHR ''+'' then
            (case int_of_digit_groups cs of Inl e \<Rightarrow> Inl e | Inr n \<Rightarrow> Inr (int n))
          else
            (case int_of_digit_groups (c # cs) of Inl e \<Rightarrow> Inl e | Inr n \<Rightarrow> Inr (int n)))"

text \<open>\<^verbatim>\<open>int(v)\<close>.\<close>

fun py_int :: "pyval \<Rightarrow> pyerr + int" where
  "py_int PyNone = Inl TypeError"
| "py_int (PyBool b) = Inr (if b then 1 else 0)"
| "py_int (PyInt i) = Inr i"
| "py_int (PyStr s) = int_of_string s"

text \<open>\<^verbatim>\<open>d[k]\<close> raises \<^verbatim>\<open>KeyError\<close> on a missing key; \<^verbatim>\<open>d.get(k)\<close> gives \<^verbatim>\<open>None\<close>.\<close>

definition subscript :: "row \<Rightarrow> string \<Rightarrow> pyerr + pyval" where
  "subscript d k = (case map_of d k of None \<Rightarrow> Inl (KeyError k) | Some v \<Rightarrow> Inr v)"

definition dict_get :: "row \<Rightarrow> string \<Rightarrow> pyval" where
  "dict_get d k = (case map_of d k of None \<Rightarrow> PyNone | Some v \<Rightarrow> v)"

definition dict_get_default :: "row \<Rightarrow> string \<Rightarrow> pyval \<Rightarrow> pyval" where
  "dict_get_default d k dflt = (case map_of d k of None \<Rightarrow> dflt | Some v \<Rightarrow> v)"

section \<open>Configuration and connection parameters\<close>

text \<open>
  \<^verbatim>\<open>connection_config\<close> is a dictionary; every key the module reads is a field here, \<open>None\<close>
  when the key is absent. A port may be given as an integer or as text: the code applies
  \<^verbatim>\<open>int()\<close> to it.
\<close>

record config =
  host :: "string option"
  port :: "pyval option"
  user :: "string option"
  password :: "string option"
  charset :: "string option"
  export_batch_rows :: "int option"
  session_sqls :: "string list option"
  use_gtid :: "bool option"
  engine :: "string option"
  replica_host :: "string option"
  replica_port :: "pyval option"
  replica_user :: "string option"
  replica_password :: "string option"

definition DEFAULT_CHARSET :: string where
  "DEFAULT_CHARSET = ''utf8''"

definition DEFAULT_EXPORT_BATCH_ROWS :: int where
  "DEFAULT_EXPORT_BATCH_ROWS = 50000"

definition MARIADB_ENGINE :: string where
  "MARIADB_ENGINE = ''mariadb''"

definition MYSQL_ENGINE :: string where
  "MYSQL_ENGINE = ''mysql''"

definition DEFAULT_USE_GTID :: bool where
  "DEFAULT_USE_GTID = False"

definition DEFAULT_SESSION_SQLS :: "string list" where
  "DEFAULT_SESSION_SQLS =
     [''SET @@session.time_zone='' @ dq @ ''+0:00'' @ dq,
      ''SET @@session.wait_timeout=28800'',
      ''SET @@session.net_read_timeout=3600'',
      ''SET @@session.innodb_lock_wait_timeout=3600'']"

text \<open>\<^verbatim>\<open>d.get(k, default)\<close> and \<^verbatim>\<open>d[k]\<close> on a field of the configuration.\<close>

definition get_or :: "'a option \<Rightarrow> 'a \<Rightarrow> 'a" where
  "get_or v dflt = (case v of None \<Rightarrow> dflt | Some x \<Rightarrow> x)"

definition required :: "string \<Rightarrow> 'a option \<Rightarrow> pyerr + 'a" where
  "required k v = (case v of None \<Rightarrow> Inl (KeyError k) | Some x \<Rightarrow> Inr x)"

text \<open>Sequencing of computations that may raise.\<close>

definition bind_err :: "pyerr + 'a \<Rightarrow> ('a \<Rightarrow> pyerr + 'b) \<Rightarrow> pyerr + 'b" where
  "bind_err m f = (case m of Inl e \<Rightarrow> Inl e | Inr x \<Rightarrow> f x)"

text \<open>The part of \<^verbatim>\<open>__init__\<close> that fills in the defaults of the configuration.\<close>

definition init_config :: "config \<Rightarrow> config" where
  "init_config c =
     c\<lparr> charset := Some (get_or (charset c) DEFAULT_CHARSET),
        export_batch_rows := Some (get_or (export_batch_rows c) DEFAULT_EXPORT_BATCH_ROWS),
        session_sqls := Some (get_or (session_sqls c) DEFAULT_SESSION_SQLS),
        use_gtid := Some (get_or (use_gtid c) DEFAULT_USE_GTID),
        engine := Some (get_or (engine c) MYSQL_ENGINE) \<rparr>"

text \<open>The dictionary of parameters that \<^verbatim>\<open>get_connection_parameters\<close> returns.\<close>

record connect_params =
  p_host :: string
  p_port :: int
  p_user :: string
  p_password :: string
  p_charset :: string

text \<open>
  \<^verbatim>\<open>get_connection_parameters\<close>. Python evaluates the default of
  \<^verbatim>\<open>config.get('replica_host', config['host'])\<close> before the lookup, so a missing primary
  key raises \<^verbatim>\<open>KeyError\<close> also when the replica key is there.
\<close>

definition get_connection_parameters ::
  "config \<Rightarrow> bool \<Rightarrow> pyerr + (connect_params \<times> bool)" where
  "get_connection_parameters cfg prioritize_primary =
     (if prioritize_primary then
        bind_err (required ''host'' (host cfg)) (\<lambda>h.
        bind_err (required ''port'' (port cfg)) (\<lambda>pv.
        bind_err (py_int pv) (\<lambda>p.
        bind_err (required ''user'' (user cfg)) (\<lambda>u.
        bind_err (required ''password'' (password cfg)) (\<lambda>pw.
        bind_err (required ''charset'' (charset cfg)) (\<lambda>cs.
          Inr (\<lparr>p_host = h, p_port = p, p_user = u, p_password = pw, p_charset = cs\<rparr>,
               False)))))))
      else
        (let is_replica = (replica_host cfg \<noteq> None) in
        bind_err (required ''host'' (host cfg)) (\<lambda>h0.
        bind_err (required ''port'' (port cfg)) (\<lambda>pv0.
        bind_err (py_int (get_or (replica_port cfg) pv0)) (\<lambda>p.
        bind_err (required ''user'' (user cfg)) (\<lambda>u0.
        bind_err (required ''password'' (password cfg)) (\<lambda>pw0.
        bind_err (required ''charset'' (charset cfg)) (\<lambda>cs.
          Inr (\<lparr>p_host = get_or (replica_host cfg) h0, p_port = p,
                p_user = get_or (replica_user cfg) u0,
                p_password = get_or (replica_password cfg) pw0, p_charset = cs\<rparr>,
               is_replica)))))))))"

section \<open>The database client and the connection manager\<close>

text \<open>
  The client library is outside the module. Every call the module makes to it is recorded
  in a trace, and what the call returns or raises is given by a \<open>client\<close>, which sees the
  trace so far: any server behaviour, including failures that come and go, is some
  \<open>client\<close>. A connection is named by the position of its \<^verbatim>\<open>connect\<close> call among the
  \<^verbatim>\<open>connect\<close> calls of the trace.
\<close>

datatype cursorclass = DictCursor | SSCursor

datatype db_event =
    Connect connect_params cursorclass
  | Execute nat string "pyval list option"
  | Close nat

record client =
  connect_outcome :: "db_event list \<Rightarrow> connect_params \<Rightarrow> cursorclass \<Rightarrow> pyerr option"
  execute_outcome ::
    "db_event list \<Rightarrow> nat \<Rightarrow> string \<Rightarrow> pyval list option \<Rightarrow> pyerr + (int \<times> row list)"
  close_outcome :: "db_event list \<Rightarrow> nat \<Rightarrow> pyerr option"

text \<open>
  Records of the module's logger, as the calls hand them over: the level, the message
  with its \<^verbatim>\<open>%s\<close> places and the arguments for them, unformatted. \<open>LogException\<close> is
  \<^verbatim>\<open>LOGGER.exception\<close> with a text, \<open>LogExceptionObject\<close> is \<^verbatim>\<open>LOGGER.exception(exc)\<close>, whose
  message is the exception itself.
\<close>

datatype log_arg = Val pyval | Exc pyerr

datatype log_record =
    LogDebug string "log_arg list"
  | LogInfo string "log_arg list"
  | LogWarning string "log_arg list"
  | LogException string "log_arg list"
  | LogExceptionObject pyerr

record world =
  trace :: "db_event list"
  logs :: "log_record list"

definition log :: "world \<Rightarrow> log_record \<Rightarrow> world" where
  "log w r = w\<lparr>logs := logs w @ [r]\<rparr>"

fun is_connect :: "db_event \<Rightarrow> bool" where
  "is_connect (Connect p cls) = True"
| "is_connect (Execute h q params) = False"
| "is_connect (Close h) = False"

definition fresh_handle :: "db_event list \<Rightarrow> nat" where
  "fresh_handle tr = length (filter is_connect tr)"

text \<open>\<^verbatim>\<open>pymysql.connect(**conn_params, cursorclass=cls)\<close>.\<close>

definition db_connect ::
  "client \<Rightarrow> world \<Rightarrow> connect_params \<Rightarrow> cursorclass \<Rightarrow> (pyerr + nat) \<times> world" where
  "db_connect cl w p cls =
     (let w' = w\<lparr>trace := trace w @ [Connect p cls]\<rparr>
      in case connect_outcome cl (trace w) p cls of
           Some e \<Rightarrow> (Inl e, w')
         | None \<Rightarrow> (Inr (fresh_handle (trace w)), w'))"

text \<open>
  \<^verbatim>\<open>cur.execute(query, params)\<close> on a cursor of connection \<open>h\<close>, with the row count and the
  rows \<^verbatim>\<open>fetchall\<close> would give.
\<close>

definition db_execute ::
  "client \<Rightarrow> world \<Rightarrow> nat \<Rightarrow> string \<Rightarrow> pyval list option \<Rightarrow>
   (pyerr + (int \<times> row list)) \<times> world" where
  "db_execute cl w h q params =
     (execute_outcome cl (trace w) h q params,
      w\<lparr>trace := trace w @ [Execute h q params]\<rparr>)"

text \<open>\<^verbatim>\<open>conn.close()\<close>.\<close>

definition db_close :: "client \<Rightarrow> world \<Rightarrow> nat \<Rightarrow> pyerr option \<times> world" where
  "db_close cl w h = (close_outcome cl (trace w) h, w\<lparr>trace := trace w @ [Close h]\<rparr>)"

text \<open>
  The world after one attempt of \<^verbatim>\<open>query\<close> on connection \<open>h\<close>: the log record of the call
  and the \<^verbatim>\<open>execute\<close> in the trace.
\<close>

definition attempted :: "world \<Rightarrow> nat \<Rightarrow> string \<Rightarrow> pyval list option \<Rightarrow> world" where
  "attempted w h q params =
     (log w (LogInfo ''Running query: %s'' [Val (PyStr q)]))
       \<lparr>trace := trace w @ [Execute h q params]\<rparr>"

text \<open>The attributes of a \<^verbatim>\<open>FastSyncTapMySql\<close> object; \<^verbatim>\<open>__init__\<close> leaves both sessions \<^verbatim>\<open>None\<close>.\<close>

record tap =
  connection_config :: config
  target_quote :: "string option"
  conn :: "nat option"
  conn_unbuffered :: "nat option"
  is_replica :: bool

definition init :: "config \<Rightarrow> string option \<Rightarrow> tap" where
  "init cfg quote =
     \<lparr>connection_config = init_config cfg, target_quote = quote, conn = None,
      conn_unbuffered = None, is_replica = False\<rparr>"

text \<open>\<^verbatim>\<open>is_mariadb\<close>.\<close>

definition is_mariadb :: "tap \<Rightarrow> pyerr + bool" where
  "is_mariadb self =
     bind_err (required ''engine'' (engine (connection_config self)))
       (\<lambda>e. Inr (e = MARIADB_ENGINE))"

text \<open>What \<^verbatim>\<open>query\<close> returns: the fetched rows, or the cursor itself.\<close>

datatype query_result = Rows "row list" | Cursor nat

text \<open>
  A method returns the value or the exception, the object and the world after it. \<open>None\<close>
  means that the call did not return within the given depth of nested \<^verbatim>\<open>query\<close> calls
  (see \<open>query\<close> below).
\<close>

type_synonym 'a outcome = "((pyerr + 'a) \<times> tap \<times> world) option"

type_synonym query_fn =
  "client \<Rightarrow> tap \<Rightarrow> world \<Rightarrow> string \<Rightarrow> nat option \<Rightarrow> pyval list option \<Rightarrow> bool \<Rightarrow> int \<Rightarrow>
   query_result outcome"

text \<open>
  \<^verbatim>\<open>close_connections\<close>. When closing the buffered session raises, the streaming session
  is not closed: both calls are in one \<^verbatim>\<open>try\<close> block.
\<close>

definition close_failed :: "world \<Rightarrow> bool \<Rightarrow> pyerr \<Rightarrow> world" where
  "close_failed w silent exc =
     (if silent then w
      else log (log w (LogExceptionObject exc))
             (LogInfo ''Connections seem to be already closed.'' []))"

definition close_connections :: "client \<Rightarrow> tap \<Rightarrow> world \<Rightarrow> bool \<Rightarrow> world" where
  "close_connections cl self w silent =
     (case conn self of
        None \<Rightarrow> close_failed w silent AttributeError
      | Some c \<Rightarrow>
          (case db_close cl w c of
             (Some exc, w1) \<Rightarrow> close_failed w1 silent exc
           | (None, w1) \<Rightarrow>
               (case conn_unbuffered self of
                  None \<Rightarrow> close_failed w1 silent AttributeError
                | Some u \<Rightarrow>
                    (case db_close cl w1 u of
                       (Some exc, w2) \<Rightarrow> close_failed w2 silent exc
                     | (None, w2) \<Rightarrow> w2))))"

text \<open>
  The loop of \<^verbatim>\<open>run_session_sqls\<close>: each statement goes to the buffered session and then
  to the streaming one, inside one \<^verbatim>\<open>try\<close>; an \<^verbatim>\<open>InternalError\<close> of either adds a warning
  and the loop goes on, any other exception leaves the method. The method \<^verbatim>\<open>query\<close> is a
  parameter here, since \<^verbatim>\<open>query\<close> itself reopens the connections.
\<close>

fun session_sqls_loop ::
  "query_fn \<Rightarrow> client \<Rightarrow> tap \<Rightarrow> world \<Rightarrow> string list \<Rightarrow> string list \<Rightarrow>
   (string list) outcome" where
  "session_sqls_loop q cl self w [] warnings = Some (Inr warnings, self, w)"
| "session_sqls_loop q cl self w (sql # sqls) warnings =
     (case q cl self w sql None None False 1 of
        None \<Rightarrow> None
      | Some (Inl exc, self1, w1) \<Rightarrow>
          if exc = InternalError then
            session_sqls_loop q cl self1 w1 sqls
              (warnings @ [''Could not set session variable: '' @ sql])
          else Some (Inl exc, self1, w1)
      | Some (Inr r1, self1, w1) \<Rightarrow>
          (case q cl self1 w1 sql (conn_unbuffered self1) None False 1 of
             None \<Rightarrow> None
           | Some (Inl exc, self2, w2) \<Rightarrow>
               if exc = InternalError then
                 session_sqls_loop q cl self2 w2 sqls
                   (warnings @ [''Could not set session variable: '' @ sql])
               else Some (Inl exc, self2, w2)
           | Some (Inr r2, self2, w2) \<Rightarrow> session_sqls_loop q cl self2 w2 sqls warnings))"

definition log_warnings :: "world \<Rightarrow> string list \<Rightarrow> world" where
  "log_warnings w warnings =
     (let w1 = (if warnings \<noteq> [] then
                  log w (LogWarning
                    ''Encountered non-fatal errors when configuring session that could impact performance:''
                    [])
                else w)
      in foldl (\<lambda>w' warning. log w' (LogWarning warning [])) w1 warnings)"

definition run_session_sqls_with :: "query_fn \<Rightarrow> client \<Rightarrow> tap \<Rightarrow> world \<Rightarrow> unit outcome" where
  "run_session_sqls_with q cl self w =
     (let session_sqls = get_or (session_sqls (connection_config self)) DEFAULT_SESSION_SQLS
      in case session_sqls_loop q cl self w session_sqls [] of
           None \<Rightarrow> None
         | Some (Inl exc, self1, w1) \<Rightarrow> Some (Inl exc, self1, w1)
         | Some (Inr warnings, self1, w1) \<Rightarrow> Some (Inr (), self1, log_warnings w1 warnings))"

text \<open>\<^verbatim>\<open>open_connections\<close>, with \<^verbatim>\<open>query\<close> as a parameter for the same reason.\<close>

definition open_connections_with :: "query_fn \<Rightarrow> client \<Rightarrow> tap \<Rightarrow> world \<Rightarrow> unit outcome" where
  "open_connections_with q cl self w =
     (case get_connection_parameters (connection_config self) False of
        Inl exc \<Rightarrow> Some (Inl exc, self, w)
      | Inr (conn_params, is_rep) \<Rightarrow>
          (let self1 = self\<lparr>is_replica := is_rep\<rparr>
           in case db_connect cl w conn_params DictCursor of
                (Inl exc, w1) \<Rightarrow> Some (Inl exc, self1, w1)
              | (Inr c, w1) \<Rightarrow>
                  (let self2 = self1\<lparr>conn := Some c\<rparr>
                   in case db_connect cl w1 conn_params SSCursor of
                        (Inl exc, w2) \<Rightarrow> Some (Inl exc, self2, w2)
                      | (Inr u, w2) \<Rightarrow>
                          run_session_sqls_with q cl (self2\<lparr>conn_unbuffered := Some u\<rparr>) w2)))"

text \<open>
  \<^verbatim>\<open>query\<close>. A connectivity failure with retries left closes and reopens the connections
  and calls \<^verbatim>\<open>query\<close> again; reopening runs the session statements through \<^verbatim>\<open>query\<close> with
  its default of one retry, so the nesting of calls has no bound of its own. The first
  argument bounds the depth of nested \<^verbatim>\<open>query\<close> calls, and the result is \<open>None\<close> when the
  bound is reached. The retry passes neither \<^verbatim>\<open>conn\<close> nor anything in its place.
\<close>

primrec query ::
  "nat \<Rightarrow> client \<Rightarrow> tap \<Rightarrow> world \<Rightarrow> string \<Rightarrow> nat option \<Rightarrow> pyval list option \<Rightarrow> bool \<Rightarrow> int \<Rightarrow>
   query_result outcome" where
  "query 0 cl self w q conn_arg params return_as_cursor n_retry = None"
| "query (Suc depth) cl self w q conn_arg params return_as_cursor n_retry =
     (let w1 = log w (LogInfo ''Running query: %s'' [Val (PyStr q)]);
          conn1 = (case conn_arg of None \<Rightarrow> conn self | Some h \<Rightarrow> Some h)
      in case conn1 of
           None \<Rightarrow> Some (Inl AttributeError, self, w1)
         | Some h \<Rightarrow>
             (case db_execute cl w1 h q params of
                (Inr (rowcount, rows), w2) \<Rightarrow>
                  Some (Inr (if return_as_cursor then Cursor h
                             else if rowcount > 0 then Rows rows else Rows []), self, w2)
              | (Inl exc, w2) \<Rightarrow>
                  if exc = InterfaceError \<or> exc = OperationalError then
                    (let w3 = log w2 (LogException
                                ''Exception happened during running a query. Number of retries: %s. %s''
                                [Val (PyInt n_retry), Exc exc])
                     in if n_retry > 0 then
                          (let w4 = log w3 (LogInfo ''Reopening the connections.'' []);
                               w5 = close_connections cl self w4 True
                           in case open_connections_with (query depth) cl self w5 of
                                None \<Rightarrow> None
                              | Some (Inl exc', self6, w6) \<Rightarrow> Some (Inl exc', self6, w6)
                              | Some (Inr _, self6, w6) \<Rightarrow>
                                  query depth cl self6
                                    (log w6 (LogInfo ''Retrying to run a query.'' []))
                                    q None params return_as_cursor (n_retry - 1))
                        else Some (Inl exc, self, w3))
                  else Some (Inl exc, self, w2)))"

definition run_session_sqls :: "nat \<Rightarrow> client \<Rightarrow> tap \<Rightarrow> world \<Rightarrow> unit outcome" where
  "run_session_sqls depth = run_session_sqls_with (query depth)"

definition open_connections :: "nat \<Rightarrow> client \<Rightarrow> tap \<Rightarrow> world \<Rightarrow> unit outcome" where
  "open_connections depth = open_connections_with (query depth)"

section \<open>Replication position\<close>

text \<open>
  Every caller below uses \<^verbatim>\<open>query\<close> with \<^verbatim>\<open>return_as_cursor=False\<close> and so receives rows
  (lemma \<open>query_returns_rows\<close>); \<open>fetched\<close> reads them.
\<close>

definition fetched :: "query_result \<Rightarrow> row list" where
  "fetched r = (case r of Rows rs \<Rightarrow> rs | Cursor h \<Rightarrow> [])"

definition bind_outcome ::
  "'a outcome \<Rightarrow> ('a \<Rightarrow> tap \<Rightarrow> world \<Rightarrow> 'b outcome) \<Rightarrow> 'b outcome" where
  "bind_outcome m f =
     (case m of
        None \<Rightarrow> None
      | Some (Inl exc, self, w) \<Rightarrow> Some (Inl exc, self, w)
      | Some (Inr x, self, w) \<Rightarrow> f x self w)"

text \<open>A step that may raise but calls nothing, inside a method.\<close>

definition lift_err :: "pyerr + 'a \<Rightarrow> tap \<Rightarrow> world \<Rightarrow> 'a outcome" where
  "lift_err m self w = (case m of Inl exc \<Rightarrow> Some (Inl exc, self, w) | Inr x \<Rightarrow> Some (Inr x, self, w))"

text \<open>\<^verbatim>\<open>result[0]\<close>.\<close>

definition first_row :: "row list \<Rightarrow> pyerr + row" where
  "first_row rs = (case rs of [] \<Rightarrow> Inl IndexError | r # _ \<Rightarrow> Inr r)"

text \<open>\<^verbatim>\<open>_get_binlog_coordinates\<close>.\<close>

definition get_binlog_coordinates :: "nat \<Rightarrow> client \<Rightarrow> tap \<Rightarrow> world \<Rightarrow> row outcome" where
  "get_binlog_coordinates depth cl self w =
     (if is_replica self then
        bind_outcome
          (query depth cl self (log w (LogDebug ''Connecting to replica to get binlog coordinates...'' []))
             ''SHOW SLAVE STATUS'' None None False 1)
          (\<lambda>result self1 w1.
             case fetched result of
               [] \<Rightarrow> Some (Inl (PyException ''MySQL binary logging is not enabled.''), self1, w1)
             | binlog_pos # _ \<Rightarrow>
                 Some (Inr [(''log_file'', dict_get binlog_pos ''Master_Log_File''),
                            (''log_pos'', dict_get binlog_pos ''Read_Master_Log_Pos''),
                            (''version'', dict_get_default binlog_pos ''version'' (PyInt 1))],
                       self1, w1))
      else
        bind_outcome
          (query depth cl self (log w (LogDebug ''Connecting to primary to get binlog coordinates...'' []))
             ''SHOW MASTER STATUS'' None None False 1)
          (\<lambda>result self1 w1.
             case fetched result of
               [] \<Rightarrow> Some (Inl (PyException ''MySQL binary logging is not enabled.''), self1, w1)
             | binlog_pos # _ \<Rightarrow>
                 Some (Inr [(''log_file'', dict_get binlog_pos ''File''),
                            (''log_pos'', dict_get binlog_pos ''Position''),
                            (''version'', dict_get_default binlog_pos ''version'' (PyInt 1))],
                       self1, w1)))"

text \<open>
  The first statement of \<^verbatim>\<open>__get_primary_server_uuid\<close> and \<^verbatim>\<open>__get_primary_server_id\<close>: on a
  replica, a connection of its own to the primary; otherwise \<^verbatim>\<open>None\<close>.
\<close>

definition connect_primary :: "client \<Rightarrow> tap \<Rightarrow> world \<Rightarrow> (nat option) outcome" where
  "connect_primary cl self w =
     (if is_replica self then
        (case get_connection_parameters (connection_config self) True of
           Inl exc \<Rightarrow> Some (Inl exc, self, w)
         | Inr (conn_params, is_rep) \<Rightarrow>
             (case db_connect cl w conn_params DictCursor of
                (Inl exc, w1) \<Rightarrow> Some (Inl exc, self, w1)
              | (Inr h, w1) \<Rightarrow> Some (Inr (Some h), self, w1)))
      else Some (Inr None, self, w))"

text \<open>\<^verbatim>\<open>if conn: conn.close()\<close>; a connection object is true, and \<^verbatim>\<open>close\<close> may raise.\<close>

definition close_if_conn :: "client \<Rightarrow> nat option \<Rightarrow> tap \<Rightarrow> world \<Rightarrow> unit outcome" where
  "close_if_conn cl conn_arg self w =
     (case conn_arg of
        None \<Rightarrow> Some (Inr (), self, w)
      | Some h \<Rightarrow>
          (case db_close cl w h of
             (Some exc, w1) \<Rightarrow> Some (Inl exc, self, w1)
           | (None, w1) \<Rightarrow> Some (Inr (), self, w1)))"

text \<open>\<^verbatim>\<open>__get_primary_server_uuid\<close>.\<close>

definition get_primary_server_uuid :: "nat \<Rightarrow> client \<Rightarrow> tap \<Rightarrow> world \<Rightarrow> pyval outcome" where
  "get_primary_server_uuid depth cl self w =
     bind_outcome (connect_primary cl self w) (\<lambda>conn_arg self1 w1.
     bind_outcome (query depth cl self1 w1 ''select @@server_uuid as server_uuid;'' conn_arg
                     None False 1) (\<lambda>result self2 w2.
     bind_outcome (close_if_conn cl conn_arg self2 w2) (\<lambda>_ self3 w3.
       lift_err (bind_err (first_row (fetched result)) (\<lambda>r. subscript r ''server_uuid''))
         self3 w3)))"

text \<open>\<^verbatim>\<open>__get_primary_server_id\<close>.\<close>

definition get_primary_server_id :: "nat \<Rightarrow> client \<Rightarrow> tap \<Rightarrow> world \<Rightarrow> pyval outcome" where
  "get_primary_server_id depth cl self w =
     bind_outcome (connect_primary cl self w) (\<lambda>conn_arg self1 w1.
     bind_outcome (query depth cl self1 w1 ''select @@server_id as server_id;'' conn_arg
                     None False 1) (\<lambda>result self2 w2.
     bind_outcome (close_if_conn cl conn_arg self2 w2) (\<lambda>_ self3 w3.
       lift_err (bind_err (first_row (fetched result)) (\<lambda>r. subscript r ''server_id''))
         self3 w3)))"

text \<open>
  The loop of \<^verbatim>\<open>__find_mariadb_gtid_pos\<close> over \<^verbatim>\<open>gtids.split(',')\<close>: the first stripped,
  non-empty entry with three \<^verbatim>\<open>-\<close> separated parts whose second part is the server id.
\<close>

fun mariadb_gtid_loop :: "string list \<Rightarrow> string \<Rightarrow> string option" where
  "mariadb_gtid_loop [] server_id = None"
| "mariadb_gtid_loop (g # gs) server_id =
     (let gtid = py_strip g
      in if gtid = [] then mariadb_gtid_loop gs server_id
         else (let gtid_parts = py_split (CHR ''-'') gtid
               in if length gtid_parts \<noteq> 3 then mariadb_gtid_loop gs server_id
                  else if gtid_parts ! 1 = server_id then Some gtid
                  else mariadb_gtid_loop gs server_id))"

text \<open>
  The loop of \<^verbatim>\<open>__find_mysql_gtid_pos\<close>: two \<^verbatim>\<open>:\<close> separated parts, the first compared with
  the server uuid as the query returned it.
\<close>

fun mysql_gtid_loop :: "string list \<Rightarrow> pyval \<Rightarrow> string option" where
  "mysql_gtid_loop [] server_uuid = None"
| "mysql_gtid_loop (g # gs) server_uuid =
     (let gtid = py_strip g
      in if gtid = [] then mysql_gtid_loop gs server_uuid
         else (let gtid_parts = py_split (CHR '':'') gtid
               in if length gtid_parts \<noteq> 2 then mysql_gtid_loop gs server_uuid
                  else if PyStr (gtid_parts ! 0) = server_uuid then Some gtid
                  else mysql_gtid_loop gs server_uuid))"

text \<open>\<^verbatim>\<open>gtids.split(',')\<close> on the value of the row: only a string has \<^verbatim>\<open>split\<close>.\<close>

definition split_gtids :: "pyval \<Rightarrow> pyerr + string list" where
  "split_gtids gtids =
     (case gtids of PyStr s \<Rightarrow> Inr (py_split (CHR '','') s) | _ \<Rightarrow> Inl AttributeError)"

text \<open>
  \<^verbatim>\<open>__find_mariadb_gtid_pos\<close>. Its first statement, the query of the position variable on
  a replica or on the primary, is \<open>query_current_gtids\<close>.
\<close>

definition query_current_gtids :: "nat \<Rightarrow> client \<Rightarrow> tap \<Rightarrow> world \<Rightarrow> query_result outcome" where
  "query_current_gtids depth cl self w =
     (if is_replica self then
        query depth cl self (log w (LogInfo ''Connecting to replica to get gtid...'' []))
          ''select @@gtid_slave_pos as current_gtids;'' None None False 1
      else
        query depth cl self (log w (LogInfo ''Connecting to primary to get gtid...'' []))
          ''select @@gtid_current_pos as current_gtids;'' None None False 1)"

definition find_mariadb_gtid_pos :: "nat \<Rightarrow> client \<Rightarrow> tap \<Rightarrow> world \<Rightarrow> row outcome" where
  "find_mariadb_gtid_pos depth cl self w =
     bind_outcome (query_current_gtids depth cl self w)
       (\<lambda>result self1 w1.
          case fetched result of
            [] \<Rightarrow> Some (Inl (PyException ''GTID is not enabled.''), self1, w1)
          | r # _ \<Rightarrow>
     bind_outcome (lift_err (subscript r ''current_gtids'') self1 w1) (\<lambda>gtids self2 w2.
     bind_outcome (get_primary_server_id depth cl self2 w2) (\<lambda>sid self3 w3.
     bind_outcome (lift_err (py_str sid) self3 w3) (\<lambda>server_id self4 w4.
       (let w5 = log w4 (LogInfo (''Found GTID(s): %s in server '' @ dq @ ''%s'' @ dq)
                           [Val gtids, Val (PyStr server_id)])
        in case split_gtids gtids of
             Inl exc \<Rightarrow> Some (Inl exc, self4, w5)
           | Inr entries \<Rightarrow>
               (case mariadb_gtid_loop entries server_id of
                  Some gtid \<Rightarrow>
                    Some (Inr [(''gtid'', PyStr gtid)], self4,
                          log w5 (LogInfo ''Using GTID %s for state bookmark''
                                    [Val (PyStr gtid)]))
                | None \<Rightarrow>
                    Some (Inl (PyException ''No suitable GTID was found.''), self4, w5)))))))"

text \<open>\<^verbatim>\<open>__find_mysql_gtid_pos\<close>.\<close>

definition find_mysql_gtid_pos :: "nat \<Rightarrow> client \<Rightarrow> tap \<Rightarrow> world \<Rightarrow> row outcome" where
  "find_mysql_gtid_pos depth cl self w =
     bind_outcome (query depth cl self w ''select @@gtid_mode as gtid_mode;'' None None False 1)
       (\<lambda>mode self1 w1.
          if (case fetched mode of [] \<Rightarrow> True
              | m # _ \<Rightarrow> dict_get m ''gtid_mode'' \<noteq> PyStr ''ON'')
          then Some (Inl (PyException ''GTID mode is not enabled.''), self1, w1)
          else
     bind_outcome (query depth cl self1 w1 ''select @@GLOBAL.gtid_executed as current_gtids;''
                     None None False 1)
       (\<lambda>result self2 w2.
          case fetched result of
            [] \<Rightarrow> Some (Inl (PyException (''No GTID was found with '' @ dq @ ''@@GLOBAL.gtid_executed'' @ dq @ ''.'')),
                        self2, w2)
          | r # _ \<Rightarrow>
     bind_outcome (lift_err (subscript r ''current_gtids'') self2 w2) (\<lambda>gtids self3 w3.
     bind_outcome (get_primary_server_uuid depth cl self3 w3) (\<lambda>server_uuid self4 w4.
       (let w5 = log w4 (LogInfo ''Found GTID(s): %s'' [Val gtids])
        in case split_gtids gtids of
             Inl exc \<Rightarrow> Some (Inl exc, self4, w5)
           | Inr entries \<Rightarrow>
               (case mysql_gtid_loop entries server_uuid of
                  Some gtid \<Rightarrow>
                    Some (Inr [(''gtid'', PyStr gtid)], self4,
                          log w5 (LogInfo ''Using GTID %s for state bookmark''
                                    [Val (PyStr gtid)]))
                | None \<Rightarrow>
                    Some (Inl (PyException ''No suitable GTID was found.''), self4, w5)))))))"

text \<open>\<^verbatim>\<open>_get_current_gtid_pos\<close>.\<close>

definition get_current_gtid_pos :: "nat \<Rightarrow> client \<Rightarrow> tap \<Rightarrow> world \<Rightarrow> row outcome" where
  "get_current_gtid_pos depth cl self w =
     (case is_mariadb self of
        Inl exc \<Rightarrow> Some (Inl exc, self, w)
      | Inr True \<Rightarrow> find_mariadb_gtid_pos depth cl self w
      | Inr False \<Rightarrow> find_mysql_gtid_pos depth cl self w)"

text \<open>\<^verbatim>\<open>fetch_current_log_pos\<close>.\<close>

definition fetch_current_log_pos :: "nat \<Rightarrow> client \<Rightarrow> tap \<Rightarrow> world \<Rightarrow> row outcome" where
  "fetch_current_log_pos depth cl self w =
     (case required ''use_gtid'' (use_gtid (connection_config self)) of
        Inl exc \<Rightarrow> Some (Inl exc, self, w)
      | Inr True \<Rightarrow> get_current_gtid_pos depth cl self w
      | Inr False \<Rightarrow> get_binlog_coordinates depth cl self w)"

subsection \<open>Entries of a GTID set\<close>

text \<open>
  The entries of a GTID set, as the loops see them: the fields between commas, stripped.
  An entry matches a MariaDB server id when it is not empty, has three parts between
  \<^verbatim>\<open>-\<close> and its middle part is the text of the server id; it matches a MySQL server uuid
  when it is not empty, has two parts between \<^verbatim>\<open>:\<close> and its first part is the uuid.
\<close>

definition gtid_entries :: "string \<Rightarrow> string list" where
  "gtid_entries gtids = map py_strip (py_split (CHR '','') gtids)"

definition mariadb_match :: "string \<Rightarrow> string \<Rightarrow> bool" where
  "mariadb_match server_id gtid =
     (gtid \<noteq> [] \<and> length (py_split (CHR ''-'') gtid) = 3
      \<and> py_split (CHR ''-'') gtid ! 1 = server_id)"

definition mysql_match :: "pyval \<Rightarrow> string \<Rightarrow> bool" where
  "mysql_match server_uuid gtid =
     (gtid \<noteq> [] \<and> length (py_split (CHR '':'') gtid) = 2
      \<and> PyStr (py_split (CHR '':'') gtid ! 0) = server_uuid)"

section \<open>Schema introspection\<close>

text \<open>
  \<^verbatim>\<open>utils.tablename_to_dict\<close> and \<^verbatim>\<open>safe_column_name\<close> are imported from modules that are
  not part of this file; the functions below take them as parameters.
\<close>

text \<open>\<^verbatim>\<open>get_primary_keys\<close>; it returns \<^verbatim>\<open>None\<close> when the query gives no row.\<close>

definition get_primary_keys ::
  "(string \<Rightarrow> row) \<Rightarrow> (pyval \<Rightarrow> string option \<Rightarrow> pyval) \<Rightarrow>
   nat \<Rightarrow> client \<Rightarrow> tap \<Rightarrow> world \<Rightarrow> string \<Rightarrow> (pyval list option) outcome" where
  "get_primary_keys tablename_to_dict safe_column_name depth cl self w table_name =
     (let table_dict = tablename_to_dict table_name
      in bind_outcome
           (lift_err
              (bind_err (subscript table_dict ''schema_name'') (\<lambda>sv.
               bind_err (py_str sv) (\<lambda>sn.
               bind_err (subscript table_dict ''table_name'') (\<lambda>tv.
               bind_err (py_str tv) (\<lambda>tn.
                 Inr (
                   ''SHOW KEYS FROM `'' @ sn @ ''`.`'' @ tn @
                   ''` WHERE Key_name = 'PRIMARY'' @ sq))))))
              self w)
           (\<lambda>sql self1 w1.
              bind_outcome (query depth cl self1 w1 sql None None False 1)
                (\<lambda>pk_specs self2 w2.
                   if length (fetched pk_specs) > 0 then
                     Some (Inr (Some (map (\<lambda>k. safe_column_name (dict_get k ''Column_name'')
                                                  (target_quote self2))
                                        (fetched pk_specs))),
                           self2, w2)
                   else Some (Inr None, self2, w2))))"

subsection \<open>The statement of \<^verbatim>\<open>get_table_columns\<close>\<close>

text \<open>
  \<^verbatim>\<open>len(max_num.split('.')[1]) if '.' in max_num else 0\<close>.
\<close>

definition decimals_of :: "string \<Rightarrow> nat" where
  "decimals_of max_num =
     (if CHR ''.'' \<in> set max_num then length (py_split (CHR ''.'') max_num ! 1) else 0)"

text \<open>
  The two fragments of SQL that the method puts into its statement for the non-integer
  and the integer numeric types, and the statement itself, character by character as
  the f-strings build them.
\<close>

definition decimal_format :: "string option \<Rightarrow> string" where
  "decimal_format max_num_arg =
     (case max_num_arg of
        None \<Rightarrow>
          nl @
          ''              CONCAT('`', column_name, '`')'' @ nl @
          ''            ''
      | Some max_num \<Rightarrow>
          if max_num \<noteq> [] then
            (let decimals = decimals_of max_num
             in
              nl @
              ''              CONCAT('GREATEST(LEAST('' @ max_num @ '', ROUND(`', column_name, '`, '' @
              str_nat decimals @ '')), -'' @ max_num @ '')')'' @ nl @
              ''            '')
          else
          nl @
          ''              CONCAT('`', column_name, '`')'' @ nl @
          ''            '')"

definition integer_format :: "string option \<Rightarrow> string" where
  "integer_format max_num_arg =
     (case max_num_arg of
        None \<Rightarrow> decimal_format max_num_arg
      | Some max_num \<Rightarrow>
          if max_num \<noteq> [] then
          nl @
          ''              CONCAT('`', column_name, '`')'' @ nl @
          ''            ''
          else decimal_format max_num_arg)"

definition get_table_columns_sql ::
  "string option \<Rightarrow> string \<Rightarrow> string \<Rightarrow> string \<Rightarrow> string" where
  "get_table_columns_sql max_num date_type schema_name table_name =
     nl @
     ''                SELECT column_name AS column_name,'' @ nl @
     ''                    data_type AS data_type,'' @ nl @
     ''                    column_type AS column_type,'' @ nl @
     ''                    safe_sql_value AS safe_sql_value'' @ nl @
     ''                FROM (SELECT column_name,'' @ nl @
     ''                            data_type,'' @ nl @
     ''                            column_type,'' @ nl @
     ''                            CASE'' @ nl @
     ''                            WHEN data_type IN ('blob', 'tinyblob', 'mediumblob', 'longblob')'' @
     nl @
     ''                                    THEN CONCAT('REPLACE(hex(`', column_name, '`)', '' @
     dq @ '', '' @ sq @ nl @
     sq @ '', ' ')'' @ dq @ '')'' @ nl @
     ''                            WHEN data_type IN ('binary', 'varbinary')'' @ nl @
     ''                                    THEN concat('REPLACE(REPLACE(hex(trim(trailing CHAR(0x00) from `',COLUMN_NAME,'`))', '' @
     dq @ '', '' @ sq @ nl @
     sq @ '', ' '), '' @ sq @ cr @ sq @ '', '' @ sq @ sq @ '')'' @ dq @ '')'' @ nl @
     ''                            WHEN data_type IN ('bit')'' @ nl @
     ''                                    THEN concat('cast(`', column_name, '` AS unsigned)')'' @
     nl @
     ''                            WHEN data_type IN ('date')'' @ nl @
     ''                                    THEN concat('nullif(CAST(`', column_name, '` AS '' @
     date_type @ ''),STR_TO_DATE('' @ dq @ ''0000-00-00 00:00:00'' @ dq @ '', '' @ dq @
     ''%Y-%m-%d %T'' @ dq @ ''))')'' @ nl @
     ''                            WHEN data_type IN ('datetime', 'timestamp')'' @ nl @
     ''                                    THEN concat('nullif(`', column_name, '`,STR_TO_DATE('' @
     dq @ ''0000-00-00 00:00:00'' @ dq @ '', '' @ dq @ ''%Y-%m-%d %T'' @ dq @ ''))')'' @ nl @
     ''                            WHEN column_type IN ('tinyint(1)')'' @ nl @
     ''                                    THEN concat('CASE WHEN `' , column_name , '` is null THEN null WHEN `' , column_name , '` = 0 THEN 0 ELSE 1 END')'' @
     nl @
     ''                            WHEN column_type IN ('geometry', 'point', 'linestring', 'polygon', 'multipoint', 'multilinestring', 'multipolygon', 'geometrycollection')'' @
     nl @
     ''                                    THEN concat('ST_AsGeoJSON(', column_name, ')')'' @
     nl @
     ''                            WHEN column_name = 'raw_data_hash'' @ sq @ nl @
     ''                                    THEN concat('REPLACE(REPLACE(hex(`', column_name, '`)', '' @
     dq @ '', '' @ sq @ nl @
     sq @ '', ' '), '' @ sq @ cr @ sq @ '', '' @ sq @ sq @ '')'' @ dq @ '')'' @ nl @
     ''                            WHEN data_type IN ('double', 'numeric', 'float', 'decimal', 'real')'' @
     nl @
     ''                                    THEN '' @ decimal_format max_num @ nl @
     ''                            WHEN data_type IN ('smallint', 'integer', 'bigint', 'mediumint', 'int')'' @
     nl @
     ''                                    THEN '' @ integer_format max_num @ nl @
     ''                            ELSE concat('REPLACE(REPLACE(REPLACE(cast(`', column_name, '` AS char CHARACTER SET utf8)', '' @
     dq @ '', '' @ sq @ nl @
     sq @ '', ' '), '' @ sq @ cr @ sq @ '', '' @ sq @ sq @ ''), '' @ sq @ nul @ sq @ '', '' @
     sq @ sq @ '')'' @ dq @ '')'' @ nl @
     ''                                END AS safe_sql_value,'' @ nl @
     ''                            ordinal_position'' @ nl @
     ''                    FROM information_schema.columns'' @ nl @
     ''                    WHERE table_schema = '' @ sq @ schema_name @ sq @ nl @
     ''                        AND table_name = '' @ sq @ table_name @ sq @ '') x'' @ nl @
     ''                ORDER BY'' @ nl @
     ''                        ordinal_position'' @ nl @
     ''            ''"

text \<open>\<^verbatim>\<open>get_table_columns\<close>.\<close>

definition get_table_columns ::
  "(string \<Rightarrow> row) \<Rightarrow> nat \<Rightarrow> client \<Rightarrow> tap \<Rightarrow> world \<Rightarrow> string \<Rightarrow> string option \<Rightarrow> string \<Rightarrow>
   query_result outcome" where
  "get_table_columns tablename_to_dict depth cl self w table_name max_num date_type =
     (let table_dict = tablename_to_dict table_name;
          schema_name = dict_get table_dict ''schema_name'';
          table_name1 = dict_get table_dict ''table_name''
      in bind_outcome
           (lift_err
              (bind_err (py_str schema_name) (\<lambda>sn.
               bind_err (py_str table_name1) (\<lambda>tn.
                 Inr (get_table_columns_sql max_num date_type sn tn))))
              self w)
           (\<lambda>sql self1 w1. query depth cl self1 w1 sql None None False 1))"

subsection \<open>What the statement computes for a column\<close>

text \<open>
  The server evaluates the \<^verbatim>\<open>CASE\<close> expression of the statement on each row of
  \<^verbatim>\<open>information_schema.columns\<close>. \<open>safe_sql_value\<close> is its value for a row: the first
  \<^verbatim>\<open>WHEN\<close> whose condition holds decides, \<^verbatim>\<open>CONCAT\<close> joins its arguments, and a string
  literal stands for the characters between its quotes. The comparison of strings is the
  server's, by the collation of the column; it is the parameter \<open>eq\<close>. The texts
  \<^verbatim>\<open>max_num\<close> and \<^verbatim>\<open>date_type\<close> are spliced into literals of the statement, and are taken
  to hold no quote and no backslash.
\<close>

definition sql_in :: "(string \<Rightarrow> string \<Rightarrow> bool) \<Rightarrow> string \<Rightarrow> string list \<Rightarrow> bool" where
  "sql_in eq x vs = list_ex (eq x) vs"

text \<open>The value of the \<^verbatim>\<open>CONCAT\<close> that \<open>decimal_format\<close> holds, and of \<open>integer_format\<close>.\<close>

definition decimal_format_value :: "string option \<Rightarrow> string \<Rightarrow> string" where
  "decimal_format_value max_num_arg column_name =
     (case max_num_arg of
        None \<Rightarrow> ''`'' @ column_name @ ''`''
      | Some max_num \<Rightarrow>
          if max_num \<noteq> [] then
            ''GREATEST(LEAST('' @ max_num @ '', ROUND(`'' @ column_name @ ''`, '' @
            str_nat (decimals_of max_num) @ '')), -'' @ max_num @ '')''
          else ''`'' @ column_name @ ''`'')"

definition integer_format_value :: "string option \<Rightarrow> string \<Rightarrow> string" where
  "integer_format_value max_num_arg column_name =
     (case max_num_arg of
        None \<Rightarrow> decimal_format_value max_num_arg column_name
      | Some max_num \<Rightarrow>
          if max_num \<noteq> [] then ''`'' @ column_name @ ''`''
          else decimal_format_value max_num_arg column_name)"

definition safe_sql_value ::
  "(string \<Rightarrow> string \<Rightarrow> bool) \<Rightarrow> string option \<Rightarrow> string \<Rightarrow> string \<Rightarrow> string \<Rightarrow> string \<Rightarrow> string" where
  "safe_sql_value eq max_num date_type column_name data_type column_type =
     (if sql_in eq data_type [''blob'', ''tinyblob'', ''mediumblob'', ''longblob''] then
        ''REPLACE(hex(`'' @ column_name @ ''`)'' @ '', '' @ sq @ nl @ sq @ '', ' ')''
      else if sql_in eq data_type [''binary'', ''varbinary''] then
        ''REPLACE(REPLACE(hex(trim(trailing CHAR(0x00) from `'' @ column_name @ ''`))'' @
        '', '' @ sq @ nl @ sq @ '', ' '), '' @ sq @ cr @ sq @ '', '' @ sq @ sq @ '')''
      else if sql_in eq data_type [''bit''] then
        ''cast(`'' @ column_name @ ''` AS unsigned)''
      else if sql_in eq data_type [''date''] then
        ''nullif(CAST(`'' @ column_name @ ''` AS '' @ date_type @ ''),STR_TO_DATE('' @ dq @
        ''0000-00-00 00:00:00'' @ dq @ '', '' @ dq @ ''%Y-%m-%d %T'' @ dq @ ''))''
      else if sql_in eq data_type [''datetime'', ''timestamp''] then
        ''nullif(`'' @ column_name @ ''`,STR_TO_DATE('' @ dq @
        ''0000-00-00 00:00:00'' @ dq @ '', '' @ dq @ ''%Y-%m-%d %T'' @ dq @ ''))''
      else if sql_in eq column_type [''tinyint(1)''] then
        ''CASE WHEN `'' @ column_name @ ''` is null THEN null WHEN `'' @ column_name @
        ''` = 0 THEN 0 ELSE 1 END''
      else if sql_in eq column_type
                [''geometry'', ''point'', ''linestring'', ''polygon'', ''multipoint'',
                 ''multilinestring'', ''multipolygon'', ''geometrycollection''] then
        ''ST_AsGeoJSON('' @ column_name @ '')''
      else if eq column_name ''raw_data_hash'' then
        ''REPLACE(REPLACE(hex(`'' @ column_name @ ''`)'' @
        '', '' @ sq @ nl @ sq @ '', ' '), '' @ sq @ cr @ sq @ '', '' @ sq @ sq @ '')''
      else if sql_in eq data_type [''double'', ''numeric'', ''float'', ''decimal'', ''real''] then
        decimal_format_value max_num column_name
      else if sql_in eq data_type [''smallint'', ''integer'', ''bigint'', ''mediumint'', ''int''] then
        integer_format_value max_num column_name
      else
        ''REPLACE(REPLACE(REPLACE(cast(`'' @ column_name @ ''` AS char CHARACTER SET utf8)'' @
        '', '' @ sq @ nl @ sq @ '', ' '), '' @ sq @ cr @ sq @ '', '' @ sq @ sq @ ''), '' @
        sq @ nul @ sq @ '', '' @ sq @ sq @ '')'')"

text \<open>The conditions of the eight rules that stand before the two numeric rules.\<close>

definition earlier_rule_applies ::
  "(string \<Rightarrow> string \<Rightarrow> bool) \<Rightarrow> string \<Rightarrow> string \<Rightarrow> string \<Rightarrow> bool" where
  "earlier_rule_applies eq column_name data_type column_type =
     (sql_in eq data_type [''blob'', ''tinyblob'', ''mediumblob'', ''longblob'']
      \<or> sql_in eq data_type [''binary'', ''varbinary'']
      \<or> sql_in eq data_type [''bit'']
      \<or> sql_in eq data_type [''date'']
      \<or> sql_in eq data_type [''datetime'', ''timestamp'']
      \<or> sql_in eq column_type [''tinyint(1)'']
      \<or> sql_in eq column_type
           [''geometry'', ''point'', ''linestring'', ''polygon'', ''multipoint'',
            ''multilinestring'', ''multipolygon'', ''geometrycollection'']
      \<or> eq column_name ''raw_data_hash'')"

section \<open>Example servers and objects\<close>

text \<open>
  Concrete clients, objects and worlds on which the theorems below are instantiated. The
  servers answer by the text of the statement and never fail.
\<close>

definition example_config :: config where
  "example_config =
     \<lparr>host = Some ''db-primary'', port = Some (PyInt 3306), user = Some ''sync'',
      password = Some ''secret'', charset = Some ''utf8'', export_batch_rows = Some 50000,
      session_sqls = Some [], use_gtid = Some False, engine = Some ''mysql'',
      replica_host = Some ''db-replica'', replica_port = Some (PyStr ''3307''),
      replica_user = Some ''reader'', replica_password = Some ''hidden''\<rparr>"

definition primary_params :: connect_params where
  "primary_params =
     \<lparr>p_host = ''db-primary'', p_port = 3306, p_user = ''sync'', p_password = ''secret'',
      p_charset = ''utf8''\<rparr>"

definition replica_params :: connect_params where
  "replica_params =
     \<lparr>p_host = ''db-replica'', p_port = 3307, p_user = ''reader'', p_password = ''hidden'',
      p_charset = ''utf8''\<rparr>"

definition mariadb_server :: client where
  "mariadb_server =
     \<lparr>connect_outcome = (\<lambda>tr p cls. None),
      execute_outcome = (\<lambda>tr h q params.
        if q = ''select @@gtid_current_pos as current_gtids;'' then
          Inr (1, [[(''current_gtids'', PyStr ''0-1-5, 1-1774983-23,bad-entry,2-1774983-99'')]])
        else if q = ''select @@server_id as server_id;'' then
          Inr (1, [[(''server_id'', PyInt 1774983)]])
        else Inr (0, [])),
      close_outcome = (\<lambda>tr h. None)\<rparr>"

definition mysql_server :: client where
  "mysql_server =
     \<lparr>connect_outcome = (\<lambda>tr p cls. None),
      execute_outcome = (\<lambda>tr h q params.
        if q = ''select @@gtid_mode as gtid_mode;'' then
          Inr (1, [[(''gtid_mode'', PyStr ''ON'')]])
        else if q = ''select @@GLOBAL.gtid_executed as current_gtids;'' then
          Inr (1, [[(''current_gtids'',
                     PyStr (''2f0ea4a5:1-7:9-12,'' @ nl @ ''8b5c3f41:1-40,'' @ nl
                            @ ''8b5c3f41:1-99''))]])
        else if q = ''select @@server_uuid as server_uuid;'' then
          Inr (1, [[(''server_uuid'', PyStr ''8b5c3f41'')]])
        else Inr (0, [])),
      close_outcome = (\<lambda>tr h. None)\<rparr>"

definition binlog_server :: client where
  "binlog_server =
     \<lparr>connect_outcome = (\<lambda>tr p cls. None),
      execute_outcome = (\<lambda>tr h q params.
        if q = ''SHOW MASTER STATUS'' then
          Inr (1, [[(''File'', PyStr ''binlog.000002''), (''Position'', PyInt 914)]])
        else Inr (0, [])),
      close_outcome = (\<lambda>tr h. None)\<rparr>"

definition keys_server :: client where
  "keys_server =
     \<lparr>connect_outcome = (\<lambda>tr p cls. None),
      execute_outcome = (\<lambda>tr h q params.
        if q = ''SHOW KEYS FROM `sales`.`orders` WHERE Key_name = 'PRIMARY'' @ sq then
          Inr (2, [[(''Column_name'', PyStr ''order_id''), (''Seq_in_index'', PyInt 1)],
                   [(''Column_name'', PyStr ''line_no''), (''Seq_in_index'', PyInt 2)]])
        else Inr (0, [])),
      close_outcome = (\<lambda>tr h. None)\<rparr>"

text \<open>
  Stand-ins for the two imported helpers, used only to instantiate the theorems: a table
  dictionary that splits at the first dot, and a name transform that puts letters in
  upper case.
\<close>

definition example_tablename_to_dict :: "string \<Rightarrow> row" where
  "example_tablename_to_dict t =
     [(''schema_name'', PyStr (takeWhile (\<lambda>c. c \<noteq> CHR ''.'') t)),
      (''table_name'', PyStr (drop 1 (dropWhile (\<lambda>c. c \<noteq> CHR ''.'') t)))]"

definition upper_char :: "char \<Rightarrow> char" where
  "upper_char c =
     (let n = of_char c :: nat in if 97 \<le> n \<and> n \<le> 122 then char_of (n - 32) else c)"

definition example_safe_column_name :: "pyval \<Rightarrow> string option \<Rightarrow> pyval" where
  "example_safe_column_name name quote =
     (case name of PyStr s \<Rightarrow> PyStr (map upper_char s) | v \<Rightarrow> v)"

text \<open>An object connected to the primary, and one connected to the replica.\<close>

definition primary_tap :: "string \<Rightarrow> bool \<Rightarrow> tap" where
  "primary_tap eng gtid =
     \<lparr>connection_config = example_config\<lparr>engine := Some eng, use_gtid := Some gtid,
        replica_host := None, replica_port := None, replica_user := None,
        replica_password := None\<rparr>,
      target_quote = None, conn = Some 0, conn_unbuffered = Some 1, is_replica = False\<rparr>"

definition primary_world :: world where
  "primary_world =
     \<lparr>trace = [Connect primary_params DictCursor, Connect primary_params SSCursor], logs = []\<rparr>"

definition replica_tap :: "string \<Rightarrow> bool \<Rightarrow> tap" where
  "replica_tap eng gtid =
     \<lparr>connection_config = example_config\<lparr>engine := Some eng, use_gtid := Some gtid\<rparr>,
      target_quote = None, conn = Some 0, conn_unbuffered = Some 1, is_replica = True\<rparr>"

definition replica_world :: world where
  "replica_world =
     \<lparr>trace = [Connect replica_params DictCursor, Connect replica_params SSCursor], logs = []\<rparr>"

section \<open>Properties of the connection manager\<close>

subsection \<open>Connection parameters\<close>

lemma bind_err_Inr [simp]: "bind_err (Inr x) f = f x"
  by (simp add: bind_err_def)

lemma bind_err_Inl [simp]: "bind_err (Inl e) f = Inl e"
  by (simp add: bind_err_def)

lemma required_Some [simp]: "required k (Some x) = Inr x"
  by (simp add: required_def)

lemma required_None [simp]: "required k None = Inl (KeyError k)"
  by (simp add: required_def)

lemma get_or_simps [simp]: "get_or (Some x) d = x" "get_or None d = d"
  by (simp_all add: get_or_def)

lemma bind_outcome_simps [simp]:
  "bind_outcome None f = None"
  "bind_outcome (Some (Inl exc, self, w)) f = Some (Inl exc, self, w)"
  "bind_outcome (Some (Inr x, self, w)) f = f x self w"
  by (simp_all add: bind_outcome_def)

lemma lift_err_simps [simp]:
  "lift_err (Inl exc) self w = Some (Inl exc, self, w)"
  "lift_err (Inr x) self w = Some (Inr x, self, w)"
  by (simp_all add: lift_err_def)

text \<open>
  C3. \<^verbatim>\<open>get_connection_parameters\<close> takes the configuration and the flag and nothing else:
  it reads no connection and makes no call to the client. On a configuration that has
  the primary keys, \<^verbatim>\<open>prioritize_primary=True\<close> gives the primary host, port, user and
  password and the flag \<open>False\<close>, whatever the replica keys are; when the four replica keys
  are set, \<^verbatim>\<open>prioritize_primary=False\<close> gives the four replica values and the flag \<open>True\<close>.
\<close>

theorem get_connection_parameters_primary_replica:
  assumes "host cfg = Some h" and "port cfg = Some pv" and "user cfg = Some u"
    and "password cfg = Some pw" and "charset cfg = Some cs"
  shows "(py_int pv = Inr p \<longrightarrow>
            get_connection_parameters cfg True =
              Inr (\<lparr>p_host = h, p_port = p, p_user = u, p_password = pw, p_charset = cs\<rparr>, False))
         \<and> (replica_host cfg = Some rh \<and> replica_port cfg = Some rpv \<and> py_int rpv = Inr rp
              \<and> replica_user cfg = Some ru \<and> replica_password cfg = Some rpw \<longrightarrow>
            get_connection_parameters cfg False =
              Inr (\<lparr>p_host = rh, p_port = rp, p_user = ru, p_password = rpw, p_charset = cs\<rparr>,
                   True))"
  using assms by (simp add: get_connection_parameters_def)

theorem get_connection_parameters_primary_replica_witness:
  "get_connection_parameters example_config True =
     Inr (\<lparr>p_host = ''db-primary'', p_port = 3306, p_user = ''sync'', p_password = ''secret'',
           p_charset = ''utf8''\<rparr>, False)
   \<and> get_connection_parameters example_config False =
     Inr (\<lparr>p_host = ''db-replica'', p_port = 3307, p_user = ''reader'', p_password = ''hidden'',
           p_charset = ''utf8''\<rparr>, True)"
proof -
  have p: "py_int (PyStr ''3307'') = Inr 3307"
    by code_simp
  show ?thesis
    using get_connection_parameters_primary_replica
      [of example_config "''db-primary''" "PyInt 3306" "''sync''" "''secret''" "''utf8''" 3306
          "''db-replica''" "PyStr ''3307''" 3307 "''reader''" "''hidden''"] p
    by (simp add: example_config_def)
qed

section \<open>Properties of the replication position resolver\<close>

subsection \<open>The loops over the entries\<close>

lemma mariadb_gtid_loop_find:
  "mariadb_gtid_loop gs sid = find (mariadb_match sid) (map py_strip gs)"
  by (induction gs) (auto simp: mariadb_match_def Let_def)

lemma mysql_gtid_loop_find:
  "mysql_gtid_loop gs u = find (mysql_match u) (map py_strip gs)"
  by (induction gs) (auto simp: mysql_match_def Let_def)

lemma find_first:
  "xs = pre @ e # post \<Longrightarrow> P e \<Longrightarrow> \<forall>x\<in>set pre. \<not> P x \<Longrightarrow> find P xs = Some e"
  by (induction pre arbitrary: xs) auto

lemma find_filter_single: "filter P xs = [e] \<Longrightarrow> find P xs = Some e"
  by (induction xs) (auto split: if_splits)

lemma find_filter: "find P (filter Q xs) = find (\<lambda>x. Q x \<and> P x) xs"
  by (induction xs) auto

lemma find_none: "find P xs = None \<longleftrightarrow> (\<forall>x\<in>set xs. \<not> P x)"
  by (induction xs) auto

lemma mariadb_skips_malformed:
  "mariadb_gtid_loop (filter (\<lambda>g. length (py_split (CHR ''-'') (py_strip g)) = 3) gs) sid
     = mariadb_gtid_loop gs sid"
proof -
  have "find (mariadb_match sid)
          (filter (\<lambda>g. length (py_split (CHR ''-'') g) = 3) (map py_strip gs))
        = find (mariadb_match sid) (map py_strip gs)"
    unfolding find_filter by (rule arg_cong [where f = "\<lambda>P. find P (map py_strip gs)"])
      (auto simp: mariadb_match_def)
  then show ?thesis
    by (simp add: mariadb_gtid_loop_find filter_map comp_def)
qed

lemma mysql_skips_malformed:
  "mysql_gtid_loop (filter (\<lambda>g. length (py_split (CHR '':'') (py_strip g)) = 2) gs) u
     = mysql_gtid_loop gs u"
proof -
  have "find (mysql_match u)
          (filter (\<lambda>g. length (py_split (CHR '':'') g) = 2) (map py_strip gs))
        = find (mysql_match u) (map py_strip gs)"
    unfolding find_filter by (rule arg_cong [where f = "\<lambda>P. find P (map py_strip gs)"])
      (auto simp: mysql_match_def)
  then show ?thesis
    by (simp add: mysql_gtid_loop_find filter_map comp_def)
qed

subsection \<open>The methods\<close>

lemma find_mariadb_gtid_pos_result:
  assumes "query_current_gtids depth cl self w = Some (Inr result, self1, w1)"
    and "fetched result = r # rs"
    and "subscript r ''current_gtids'' = Inr (PyStr gtids)"
    and "get_primary_server_id depth cl self1 w1 = Some (Inr sid, self2, w2)"
    and "py_str sid = Inr server_id"
  shows "find_mariadb_gtid_pos depth cl self w =
           (let w3 = log w2 (LogInfo (''Found GTID(s): %s in server '' @ dq @ ''%s'' @ dq)
                               [Val (PyStr gtids), Val (PyStr server_id)])
            in case find (mariadb_match server_id) (gtid_entries gtids) of
                 Some e \<Rightarrow>
                   Some (Inr [(''gtid'', PyStr e)], self2,
                         log w3 (LogInfo ''Using GTID %s for state bookmark'' [Val (PyStr e)]))
               | None \<Rightarrow> Some (Inl (PyException ''No suitable GTID was found.''), self2, w3))"
  using assms
  by (simp add: find_mariadb_gtid_pos_def split_gtids_def mariadb_gtid_loop_find
      gtid_entries_def Let_def split: option.split)

lemma find_mysql_gtid_pos_result:
  assumes "query depth cl self w ''select @@gtid_mode as gtid_mode;'' None None False 1
             = Some (Inr mode, self1, w1)"
    and "fetched mode = m # ms" and "dict_get m ''gtid_mode'' = PyStr ''ON''"
    and "query depth cl self1 w1 ''select @@GLOBAL.gtid_executed as current_gtids;''
           None None False 1 = Some (Inr result, self2, w2)"
    and "fetched result = r # rs"
    and "subscript r ''current_gtids'' = Inr (PyStr gtids)"
    and "get_primary_server_uuid depth cl self2 w2 = Some (Inr server_uuid, self3, w3)"
  shows "find_mysql_gtid_pos depth cl self w =
           (let w4 = log w3 (LogInfo ''Found GTID(s): %s'' [Val (PyStr gtids)])
            in case find (mysql_match server_uuid) (gtid_entries gtids) of
                 Some e \<Rightarrow>
                   Some (Inr [(''gtid'', PyStr e)], self3,
                         log w4 (LogInfo ''Using GTID %s for state bookmark'' [Val (PyStr e)]))
               | None \<Rightarrow> Some (Inl (PyException ''No suitable GTID was found.''), self3, w4))"
  using assms
  by (simp add: find_mysql_gtid_pos_def split_gtids_def mysql_gtid_loop_find gtid_entries_def
      Let_def split: option.split)

text \<open>
  C1. MariaDB: when the position query gives a row with the GTID set \<open>gtids\<close> and the
  primary's server id has the text \<open>server_id\<close>, and \<open>e\<close> is an entry of the set that matches
  it with no matching entry listed before it, \<^verbatim>\<open>__find_mariadb_gtid_pos\<close> returns
  \<^verbatim>\<open>{'gtid': e}\<close>. MySQL: the same for \<^verbatim>\<open>__find_mysql_gtid_pos\<close> and the primary's server uuid,
  once the GTID mode reads \<^verbatim>\<open>ON\<close>. In particular a set with exactly one matching entry gives
  that entry, and of several matching entries the earliest listed one is returned.
  Entries with the wrong number of parts are skipped: removing them from the list changes
  no result.
\<close>

theorem gtid_resolution_returns_earliest_match:
  "(query_current_gtids depth cl self w = Some (Inr result, self1, w1)
      \<and> fetched result = r # rs \<and> subscript r ''current_gtids'' = Inr (PyStr gtids)
      \<and> get_primary_server_id depth cl self1 w1 = Some (Inr sid, self2, w2)
      \<and> py_str sid = Inr server_id
      \<and> gtid_entries gtids = pre @ e # post \<and> mariadb_match server_id e
      \<and> (\<forall>x\<in>set pre. \<not> mariadb_match server_id x)
    \<longrightarrow> find_mariadb_gtid_pos depth cl self w =
          Some (Inr [(''gtid'', PyStr e)], self2,
                log (log w2 (LogInfo (''Found GTID(s): %s in server '' @ dq @ ''%s'' @ dq)
                               [Val (PyStr gtids), Val (PyStr server_id)]))
                  (LogInfo ''Using GTID %s for state bookmark'' [Val (PyStr e)])))
   \<and> (query depth' cl' self' w' ''select @@gtid_mode as gtid_mode;'' None None False 1
          = Some (Inr mode, self1', w1')
      \<and> fetched mode = m # ms \<and> dict_get m ''gtid_mode'' = PyStr ''ON''
      \<and> query depth' cl' self1' w1' ''select @@GLOBAL.gtid_executed as current_gtids;''
            None None False 1 = Some (Inr result', self2', w2')
      \<and> fetched result' = r' # rs' \<and> subscript r' ''current_gtids'' = Inr (PyStr gtids')
      \<and> get_primary_server_uuid depth' cl' self2' w2' = Some (Inr server_uuid, self3', w3')
      \<and> gtid_entries gtids' = pre' @ e' # post' \<and> mysql_match server_uuid e'
      \<and> (\<forall>x\<in>set pre'. \<not> mysql_match server_uuid x)
    \<longrightarrow> find_mysql_gtid_pos depth' cl' self' w' =
          Some (Inr [(''gtid'', PyStr e')], self3',
                log (log w3' (LogInfo ''Found GTID(s): %s'' [Val (PyStr gtids')]))
                  (LogInfo ''Using GTID %s for state bookmark'' [Val (PyStr e')])))
   \<and> (filter (mariadb_match s) (map py_strip gs) = [g] \<longrightarrow> mariadb_gtid_loop gs s = Some g)
   \<and> (filter (mysql_match u) (map py_strip gs') = [g'] \<longrightarrow> mysql_gtid_loop gs' u = Some g')
   \<and> mariadb_gtid_loop (filter (\<lambda>x. length (py_split (CHR ''-'') (py_strip x)) = 3) gs) s
       = mariadb_gtid_loop gs s
   \<and> mysql_gtid_loop (filter (\<lambda>x. length (py_split (CHR '':'') (py_strip x)) = 2) gs') u
       = mysql_gtid_loop gs' u"
proof (intro conjI impI)
  assume h: "query_current_gtids depth cl self w = Some (Inr result, self1, w1)
      \<and> fetched result = r # rs \<and> subscript r ''current_gtids'' = Inr (PyStr gtids)
      \<and> get_primary_server_id depth cl self1 w1 = Some (Inr sid, self2, w2)
      \<and> py_str sid = Inr server_id
      \<and> gtid_entries gtids = pre @ e # post \<and> mariadb_match server_id e
      \<and> (\<forall>x\<in>set pre. \<not> mariadb_match server_id x)"
  then have "find (mariadb_match server_id) (gtid_entries gtids) = Some e"
    by (intro find_first [where pre = pre and post = post]) auto
  with h show "find_mariadb_gtid_pos depth cl self w =
          Some (Inr [(''gtid'', PyStr e)], self2,
                log (log w2 (LogInfo (''Found GTID(s): %s in server '' @ dq @ ''%s'' @ dq)
                               [Val (PyStr gtids), Val (PyStr server_id)]))
                  (LogInfo ''Using GTID %s for state bookmark'' [Val (PyStr e)]))"
    by (simp add: find_mariadb_gtid_pos_result [where result = result and r = r and rs = rs
          and sid = sid])
next
  assume h: "query depth' cl' self' w' ''select @@gtid_mode as gtid_mode;'' None None False 1
          = Some (Inr mode, self1', w1')
      \<and> fetched mode = m # ms \<and> dict_get m ''gtid_mode'' = PyStr ''ON''
      \<and> query depth' cl' self1' w1' ''select @@GLOBAL.gtid_executed as current_gtids;''
            None None False 1 = Some (Inr result', self2', w2')
      \<and> fetched result' = r' # rs' \<and> subscript r' ''current_gtids'' = Inr (PyStr gtids')
      \<and> get_primary_server_uuid depth' cl' self2' w2' = Some (Inr server_uuid, self3', w3')
      \<and> gtid_entries gtids' = pre' @ e' # post' \<and> mysql_match server_uuid e'
      \<and> (\<forall>x\<in>set pre'. \<not> mysql_match server_uuid x)"
  then have "find (mysql_match server_uuid) (gtid_entries gtids') = Some e'"
    by (intro find_first [where pre = pre' and post = post']) auto
  with h show "find_mysql_gtid_pos depth' cl' self' w' =
          Some (Inr [(''gtid'', PyStr e')], self3',
                log (log w3' (LogInfo ''Found GTID(s): %s'' [Val (PyStr gtids')]))
                  (LogInfo ''Using GTID %s for state bookmark'' [Val (PyStr e')]))"
    by (simp add: find_mysql_gtid_pos_result [where mode = mode and m = m and ms = ms
          and result = result' and r = r' and rs = rs' and ?self1.0 = self1' and ?w1.0 = w1'])
next
  assume "filter (mariadb_match s) (map py_strip gs) = [g]"
  then show "mariadb_gtid_loop gs s = Some g"
    by (simp add: mariadb_gtid_loop_find find_filter_single)
next
  assume "filter (mysql_match u) (map py_strip gs') = [g']"
  then show "mysql_gtid_loop gs' u = Some g'"
    by (simp add: mysql_gtid_loop_find find_filter_single)
next
  show "mariadb_gtid_loop (filter (\<lambda>x. length (py_split (CHR ''-'') (py_strip x)) = 3) gs) s
       = mariadb_gtid_loop gs s"
    by (rule mariadb_skips_malformed)
next
  show "mysql_gtid_loop (filter (\<lambda>x. length (py_split (CHR '':'') (py_strip x)) = 2) gs') u
       = mysql_gtid_loop gs' u"
    by (rule mysql_skips_malformed)
qed

theorem gtid_resolution_returns_earliest_match_witness:
  "map_option fst (find_mariadb_gtid_pos (Suc 0) mariadb_server (primary_tap ''mariadb'' True)
                     primary_world)
     = Some (Inr [(''gtid'', PyStr ''1-1774983-23'')])
   \<and> map_option fst (find_mysql_gtid_pos (Suc 0) mysql_server (replica_tap ''mysql'' True)
                       replica_world)
     = Some (Inr [(''gtid'', PyStr ''8b5c3f41:1-40'')])
   \<and> mariadb_gtid_loop [''0-1-5'', '' 1-1774983-23'', ''bad-entry''] ''1774983''
     = Some ''1-1774983-23''
   \<and> mysql_gtid_loop [''2f0ea4a5:1-7:9-12'', ''8b5c3f41:1-40 ''] (PyStr ''8b5c3f41'')
     = Some ''8b5c3f41:1-40''"
proof -
  note T = gtid_resolution_returns_earliest_match
  define o1 where "o1 = the (query_current_gtids (Suc 0) mariadb_server
                               (primary_tap ''mariadb'' True) primary_world)"
  define o2 where "o2 = the (get_primary_server_id (Suc 0) mariadb_server (fst (snd o1))
                               (snd (snd o1)))"
  have a1: "query_current_gtids (Suc 0) mariadb_server (primary_tap ''mariadb'' True)
              primary_world
            = Some (Inr (Rows [[(''current_gtids'',
                                 PyStr ''0-1-5, 1-1774983-23,bad-entry,2-1774983-99'')]]),
                    fst (snd o1), snd (snd o1))"
    unfolding o1_def by code_simp
  have a2: "fetched (Rows [[(''current_gtids'',
                             PyStr ''0-1-5, 1-1774983-23,bad-entry,2-1774983-99'')]])
            = [(''current_gtids'', PyStr ''0-1-5, 1-1774983-23,bad-entry,2-1774983-99'')] # []"
    by code_simp
  have a3: "subscript [(''current_gtids'', PyStr ''0-1-5, 1-1774983-23,bad-entry,2-1774983-99'')]
              ''current_gtids''
            = Inr (PyStr ''0-1-5, 1-1774983-23,bad-entry,2-1774983-99'')"
    by code_simp
  have a4: "get_primary_server_id (Suc 0) mariadb_server (fst (snd o1)) (snd (snd o1))
            = Some (Inr (PyInt 1774983), fst (snd o2), snd (snd o2))"
    unfolding o2_def o1_def by code_simp
  have a4': "py_str (PyInt 1774983) = Inr ''1774983''"
    by (simp add: str_int_def digit_char_def MAX_STR_DIGITS_def)
  have a5: "gtid_entries ''0-1-5, 1-1774983-23,bad-entry,2-1774983-99''
            = [''0-1-5''] @ ''1-1774983-23'' # [''bad-entry'', ''2-1774983-99'']"
    by code_simp
  have a6: "mariadb_match ''1774983'' ''1-1774983-23''"
    by code_simp
  have a7: "\<forall>x\<in>set [''0-1-5'']. \<not> mariadb_match ''1774983'' x"
    by code_simp
  have M: "find_mariadb_gtid_pos (Suc 0) mariadb_server (primary_tap ''mariadb'' True)
             primary_world
           = Some (Inr [(''gtid'', PyStr ''1-1774983-23'')], fst (snd o2),
                log (log (snd (snd o2))
                       (LogInfo (''Found GTID(s): %s in server '' @ dq @ ''%s'' @ dq)
                          [Val (PyStr ''0-1-5, 1-1774983-23,bad-entry,2-1774983-99''),
                           Val (PyStr ''1774983'')]))
                  (LogInfo ''Using GTID %s for state bookmark'' [Val (PyStr ''1-1774983-23'')]))"
    by (rule mp [OF conjunct1 [OF T]
          conjI [OF a1 conjI [OF a2 conjI [OF a3 conjI [OF a4 conjI [OF a4'
            conjI [OF a5 conjI [OF a6 a7]]]]]]]])
  define o3 where "o3 = the (query (Suc 0) mysql_server (replica_tap ''mysql'' True) replica_world
                               ''select @@gtid_mode as gtid_mode;'' None None False 1)"
  define o4 where "o4 = the (query (Suc 0) mysql_server (fst (snd o3)) (snd (snd o3))
                               ''select @@GLOBAL.gtid_executed as current_gtids;''
                               None None False 1)"
  define o5 where "o5 = the (get_primary_server_uuid (Suc 0) mysql_server (fst (snd o4))
                               (snd (snd o4)))"
  define gs where "gs = ''2f0ea4a5:1-7:9-12,'' @ nl @ ''8b5c3f41:1-40,'' @ nl @ ''8b5c3f41:1-99''"
  have b1: "query (Suc 0) mysql_server (replica_tap ''mysql'' True) replica_world
              ''select @@gtid_mode as gtid_mode;'' None None False 1
            = Some (Inr (Rows [[(''gtid_mode'', PyStr ''ON'')]]), fst (snd o3), snd (snd o3))"
    unfolding o3_def by code_simp
  have b2: "fetched (Rows [[(''gtid_mode'', PyStr ''ON'')]]) = [(''gtid_mode'', PyStr ''ON'')] # []"
    by code_simp
  have b3: "dict_get [(''gtid_mode'', PyStr ''ON'')] ''gtid_mode'' = PyStr ''ON''"
    by code_simp
  have b4: "query (Suc 0) mysql_server (fst (snd o3)) (snd (snd o3))
              ''select @@GLOBAL.gtid_executed as current_gtids;'' None None False 1
            = Some (Inr (Rows [[(''current_gtids'', PyStr gs)]]), fst (snd o4), snd (snd o4))"
    unfolding o4_def o3_def gs_def by code_simp
  have b5: "fetched (Rows [[(''current_gtids'', PyStr gs)]]) = [(''current_gtids'', PyStr gs)] # []"
    by (simp add: fetched_def)
  have b6: "subscript [(''current_gtids'', PyStr gs)] ''current_gtids'' = Inr (PyStr gs)"
    by (simp add: subscript_def)
  have b7: "get_primary_server_uuid (Suc 0) mysql_server (fst (snd o4)) (snd (snd o4))
            = Some (Inr (PyStr ''8b5c3f41''), fst (snd o5), snd (snd o5))"
    unfolding o5_def o4_def o3_def by code_simp
  have b8: "gtid_entries gs = [''2f0ea4a5:1-7:9-12''] @ ''8b5c3f41:1-40'' # [''8b5c3f41:1-99'']"
    unfolding gs_def by code_simp
  have b9: "mysql_match (PyStr ''8b5c3f41'') ''8b5c3f41:1-40''"
    by code_simp
  have b10: "\<forall>x\<in>set [''2f0ea4a5:1-7:9-12'']. \<not> mysql_match (PyStr ''8b5c3f41'') x"
    by code_simp
  have S: "find_mysql_gtid_pos (Suc 0) mysql_server (replica_tap ''mysql'' True) replica_world
           = Some (Inr [(''gtid'', PyStr ''8b5c3f41:1-40'')], fst (snd o5),
                log (log (snd (snd o5)) (LogInfo ''Found GTID(s): %s'' [Val (PyStr gs)]))
                  (LogInfo ''Using GTID %s for state bookmark'' [Val (PyStr ''8b5c3f41:1-40'')]))"
    by (rule mp [OF conjunct1 [OF conjunct2 [OF T]]
          conjI [OF b1 conjI [OF b2 conjI [OF b3 conjI [OF b4 conjI [OF b5 conjI [OF b6
            conjI [OF b7 conjI [OF b8 conjI [OF b9 b10]]]]]]]]]])
  have c1: "filter (mariadb_match ''1774983'')
              (map py_strip [''0-1-5'', '' 1-1774983-23'', ''bad-entry'']) = [''1-1774983-23'']"
    by code_simp
  have L1: "mariadb_gtid_loop [''0-1-5'', '' 1-1774983-23'', ''bad-entry''] ''1774983''
            = Some ''1-1774983-23''"
    by (rule mp [OF conjunct1 [OF conjunct2 [OF conjunct2 [OF T]]] c1])
  have c2: "filter (mysql_match (PyStr ''8b5c3f41''))
              (map py_strip [''2f0ea4a5:1-7:9-12'', ''8b5c3f41:1-40 '']) = [''8b5c3f41:1-40'']"
    by code_simp
  have L2: "mysql_gtid_loop [''2f0ea4a5:1-7:9-12'', ''8b5c3f41:1-40 ''] (PyStr ''8b5c3f41'')
            = Some ''8b5c3f41:1-40''"
    by (rule mp [OF conjunct1 [OF conjunct2 [OF conjunct2 [OF conjunct2 [OF T]]]] c2])
  show ?thesis
    by (simp only: M S L1 L2 option.map fst_conv simp_thms)
qed

section \<open>Properties of a single attempt\<close>

lemma query_succeeds:
  assumes "(case conn_arg of None \<Rightarrow> conn self | Some h' \<Rightarrow> Some h') = Some h"
    and "execute_outcome cl (trace w) h q params = Inr (rowcount, rows)"
  shows "query (Suc depth) cl self w q conn_arg params return_as_cursor n_retry =
           Some (Inr (if return_as_cursor then Cursor h
                      else if rowcount > 0 then Rows rows else Rows []),
                 self, attempted w h q params)"
  using assms by (simp add: db_execute_def log_def attempted_def Let_def)

lemma query_raises_other:
  assumes "(case conn_arg of None \<Rightarrow> conn self | Some h' \<Rightarrow> Some h') = Some h"
    and "execute_outcome cl (trace w) h q params = Inl exc"
    and "exc \<noteq> InterfaceError" and "exc \<noteq> OperationalError"
  shows "query (Suc depth) cl self w q conn_arg params return_as_cursor n_retry =
           Some (Inl exc, self, attempted w h q params)"
  using assms by (simp add: db_execute_def log_def attempted_def Let_def)

text \<open>
  C8. With GTID mode off on a connection to the primary, when \<^verbatim>\<open>SHOW MASTER STATUS\<close>
  gives the single row \<^verbatim>\<open>{File: "binlog.000002", Position: 914}\<close>,
  \<^verbatim>\<open>fetch_current_log_pos\<close> returns that file and position with version 1; when it gives
  no row, the call raises \<^verbatim>\<open>Exception('MySQL binary logging is not enabled.')\<close>.
\<close>

theorem fetch_current_log_pos_binlog_scenario:
  "(use_gtid (connection_config self) = Some False \<and> \<not> is_replica self \<and> conn self = Some c
      \<and> execute_outcome cl (trace w) c ''SHOW MASTER STATUS'' None
          = Inr (1, [[(''File'', PyStr ''binlog.000002''), (''Position'', PyInt 914)]])
    \<longrightarrow> fetch_current_log_pos (Suc depth) cl self w =
          Some (Inr [(''log_file'', PyStr ''binlog.000002''), (''log_pos'', PyInt 914),
                     (''version'', PyInt 1)],
                self,
                attempted (log w (LogDebug ''Connecting to primary to get binlog coordinates...'' []))
                  c ''SHOW MASTER STATUS'' None))
   \<and> (use_gtid (connection_config self') = Some False \<and> \<not> is_replica self'
      \<and> conn self' = Some c'
      \<and> execute_outcome cl' (trace w') c' ''SHOW MASTER STATUS'' None = Inr (rowcount, rows)
      \<and> (rowcount \<le> 0 \<or> rows = [])
    \<longrightarrow> fetch_current_log_pos (Suc depth') cl' self' w' =
          Some (Inl (PyException ''MySQL binary logging is not enabled.''), self',
                attempted (log w' (LogDebug ''Connecting to primary to get binlog coordinates...'' []))
                  c' ''SHOW MASTER STATUS'' None))"
proof (intro conjI impI)
  assume h: "use_gtid (connection_config self) = Some False \<and> \<not> is_replica self
      \<and> conn self = Some c
      \<and> execute_outcome cl (trace w) c ''SHOW MASTER STATUS'' None
          = Inr (1, [[(''File'', PyStr ''binlog.000002''), (''Position'', PyInt 914)]])"
  then have "query (Suc depth) cl self
               (log w (LogDebug ''Connecting to primary to get binlog coordinates...'' []))
               ''SHOW MASTER STATUS'' None None False 1
             = Some (Inr (Rows [[(''File'', PyStr ''binlog.000002''), (''Position'', PyInt 914)]]),
                     self,
                     attempted (log w (LogDebug ''Connecting to primary to get binlog coordinates...'' []))
                       c ''SHOW MASTER STATUS'' None)"
    by (subst query_succeeds [where h = c and rowcount = 1
          and rows = "[[(''File'', PyStr ''binlog.000002''), (''Position'', PyInt 914)]]"])
       (simp_all add: log_def)
  with h show "fetch_current_log_pos (Suc depth) cl self w =
          Some (Inr [(''log_file'', PyStr ''binlog.000002''), (''log_pos'', PyInt 914),
                     (''version'', PyInt 1)],
                self,
                attempted (log w (LogDebug ''Connecting to primary to get binlog coordinates...'' []))
                  c ''SHOW MASTER STATUS'' None)"
    by (simp add: fetch_current_log_pos_def get_binlog_coordinates_def fetched_def dict_get_def
        dict_get_default_def del: query.simps)
next
  assume h: "use_gtid (connection_config self') = Some False \<and> \<not> is_replica self'
      \<and> conn self' = Some c'
      \<and> execute_outcome cl' (trace w') c' ''SHOW MASTER STATUS'' None = Inr (rowcount, rows)
      \<and> (rowcount \<le> 0 \<or> rows = [])"
  then have "query (Suc depth') cl' self'
               (log w' (LogDebug ''Connecting to primary to get binlog coordinates...'' []))
               ''SHOW MASTER STATUS'' None None False 1
             = Some (Inr (if rowcount > 0 then Rows rows else Rows []), self',
                     attempted (log w' (LogDebug ''Connecting to primary to get binlog coordinates...'' []))
                       c' ''SHOW MASTER STATUS'' None)"
    by (subst query_succeeds [where h = c' and rowcount = rowcount and rows = rows])
       (simp_all add: log_def)
  with h show "fetch_current_log_pos (Suc depth') cl' self' w' =
          Some (Inl (PyException ''MySQL binary logging is not enabled.''), self',
                attempted (log w' (LogDebug ''Connecting to primary to get binlog coordinates...'' []))
                  c' ''SHOW MASTER STATUS'' None)"
    by (auto simp add: fetch_current_log_pos_def get_binlog_coordinates_def fetched_def
        simp del: query.simps)
qed

theorem fetch_current_log_pos_binlog_scenario_witness:
  "map_option fst (fetch_current_log_pos (Suc 0) binlog_server (primary_tap ''mysql'' False)
                     primary_world)
     = Some (Inr [(''log_file'', PyStr ''binlog.000002''), (''log_pos'', PyInt 914),
                  (''version'', PyInt 1)])
   \<and> map_option fst (fetch_current_log_pos (Suc 0) mariadb_server (primary_tap ''mysql'' False)
                       primary_world)
     = Some (Inl (PyException ''MySQL binary logging is not enabled.''))"
proof -
  note T = fetch_current_log_pos_binlog_scenario
  have a1: "use_gtid (connection_config (primary_tap ''mysql'' False)) = Some False"
    by (simp add: primary_tap_def)
  have a2: "\<not> is_replica (primary_tap ''mysql'' False)"
    by (simp add: primary_tap_def)
  have a3: "conn (primary_tap ''mysql'' False) = Some 0"
    by (simp add: primary_tap_def)
  have a4: "execute_outcome binlog_server (trace primary_world) 0 ''SHOW MASTER STATUS'' None
            = Inr (1, [[(''File'', PyStr ''binlog.000002''), (''Position'', PyInt 914)]])"
    by (simp add: binlog_server_def)
  have b4: "execute_outcome mariadb_server (trace primary_world) 0 ''SHOW MASTER STATUS'' None
            = Inr (0, [])"
    by (simp add: mariadb_server_def)
  have b5: "(0::int) \<le> 0 \<or> ([]::row list) = []"
    by simp
  have A: "fetch_current_log_pos (Suc 0) binlog_server (primary_tap ''mysql'' False) primary_world =
          Some (Inr [(''log_file'', PyStr ''binlog.000002''), (''log_pos'', PyInt 914),
                     (''version'', PyInt 1)],
                primary_tap ''mysql'' False,
                attempted (log primary_world
                            (LogDebug ''Connecting to primary to get binlog coordinates...'' []))
                  0 ''SHOW MASTER STATUS'' None)"
    by (rule mp [OF conjunct1 [OF T] conjI [OF a1 conjI [OF a2 conjI [OF a3 a4]]]])
  have B: "fetch_current_log_pos (Suc 0) mariadb_server (primary_tap ''mysql'' False) primary_world =
          Some (Inl (PyException ''MySQL binary logging is not enabled.''),
                primary_tap ''mysql'' False,
                attempted (log primary_world
                            (LogDebug ''Connecting to primary to get binlog coordinates...'' []))
                  0 ''SHOW MASTER STATUS'' None)"
    by (rule mp [OF conjunct2 [OF T] conjI [OF a1 conjI [OF a2 conjI [OF a3 conjI [OF b4 b5]]]]])
  show ?thesis
    by (simp only: A B option.map fst_conv simp_thms)
qed

end
